theory Spec2Isabelle
  imports Main "HOL-Library.Word"
begin

section \<open>Data model (pivx/types.ts)\<close>

text \<open>
  A \<^verbatim>\<open>Uint8Array\<close> is a list of 8-bit words. A JavaScript \<^verbatim>\<open>number\<close> used as a
  version value is an integer; \<^verbatim>\<open>VersionPrefix = number | number[]\<close> is the sum of the
  two run-time shapes that \<^verbatim>\<open>typeof\<close> and \<^verbatim>\<open>Array.isArray\<close> tell apart.
\<close>

type_synonym byte = "8 word"
type_synonym Uint8Array = "byte list"

datatype VersionPrefix = Num int | Arr "int list"

record PivxPrefixes =
  pubKeyHash :: VersionPrefix
  scriptHash :: VersionPrefix
  staking :: VersionPrefix
  exchange :: VersionPrefix

text \<open>
  \<^verbatim>\<open>PivxNetwork extends Network\<close>: the inherited fields \<^verbatim>\<open>pubKeyHash\<close> and
  \<^verbatim>\<open>scriptHash\<close> of \<^verbatim>\<open>Network\<close> carry the prefix \<open>network_\<close> here, and the nested
  \<^verbatim>\<open>bip32\<close> object is flattened.
\<close>

record PivxNetwork =
  messagePrefix :: string
  bech32 :: string
  bip32_public :: int
  bip32_private :: int
  network_pubKeyHash :: int
  network_scriptHash :: int
  wif :: int
  pivxPrefixes :: PivxPrefixes

text \<open>
  \<^verbatim>\<open>PivxAddressType = 'p2pkh' | 'p2sh' | 'staking' | 'exchange'\<close> is a string at run
  time, and the \<^verbatim>\<open>switch\<close> of the script projection has a \<^verbatim>\<open>default\<close> branch for
  every other string; the model keeps the string.
\<close>

type_synonym PivxAddressType = string

record ParsedPivxAddress =
  type :: PivxAddressType
  version :: VersionPrefix
  hash :: Uint8Array

text \<open>The four members of \<^verbatim>\<open>PivxAddressType\<close>, for stating that a string is one of them.\<close>

definition KNOWN_TYPES :: "PivxAddressType list" where
  "KNOWN_TYPES = [''p2pkh'', ''p2sh'', ''staking'', ''exchange'']"

subsection \<open>The registered network (pivx/network.ts)\<close>

definition pivx :: PivxNetwork where
  "pivx = \<lparr> messagePrefix = CHR 0x18 # ''Darknet Signed Message:'' @ [CHR 0x0A],
            bech32 = '''',
            bip32_public = 0x022d2533,
            bip32_private = 0x0221312b,
            network_pubKeyHash = 0x1e,
            network_scriptHash = 0x0d,
            wif = 0xd4,
            pivxPrefixes = \<lparr> pubKeyHash = Num 0x1e,
                             scriptHash = Num 0x0d,
                             staking = Num 0x3f,
                             exchange = Arr [0x01, 0xb9, 0xa2] \<rparr> \<rparr>"

section \<open>Failures\<close>

text \<open>
  Every \<^verbatim>\<open>throw new Error(...)\<close> of address.ts is one constructor, carrying what the
  message interpolates. \<open>Base58CheckError\<close> wraps whatever the external decoder throws;
  \<open>ValueOutOfRange\<close> is the range check of \<^verbatim>\<open>tools.writeUInt8\<close>.
\<close>

datatype error =
    Base58CheckError string
  | PayloadTooShort
  | UnknownPrefix byte
  | InvalidHashLength nat
  | HashMustBe20Bytes nat
  | ValueOutOfRange int
  | UnknownAddressType string

text \<open>The conditions that the decode path (Base58Check, matcher, length validation) can raise.\<close>

fun isDecodeStageError :: "error \<Rightarrow> bool" where
  "isDecodeStageError (Base58CheckError _) = True"
| "isDecodeStageError PayloadTooShort = True"
| "isDecodeStageError (UnknownPrefix _) = True"
| "isDecodeStageError (InvalidHashLength _) = True"
| "isDecodeStageError _ = False"

section \<open>Prefix matcher (pivx/address.ts)\<close>

text \<open>
  \<^verbatim>\<open>versionEquals\<close>: two numbers by \<^verbatim>\<open>===\<close>; two arrays by equal length and
  \<^verbatim>\<open>a.every((val, idx) => val === b[idx])\<close>; mixed shapes are never equal.
\<close>

fun versionEquals :: "VersionPrefix \<Rightarrow> VersionPrefix \<Rightarrow> bool" where
  "versionEquals (Num a) (Num b) = (a = b)"
| "versionEquals (Arr a) (Arr b) =
     (length a = length b \<and> list_all (\<lambda>idx. a ! idx = b ! idx) [0..<length a])"
| "versionEquals _ _ = False"

text \<open>
  The first block of \<^verbatim>\<open>extractVersion\<close> (the multi-byte stage): \<open>Some\<close> is its early
  \<^verbatim>\<open>return\<close>, \<open>None\<close> is falling out of the block.
\<close>

definition extractVersion_exchange :: "Uint8Array \<Rightarrow> PivxNetwork \<Rightarrow> ParsedPivxAddress option" where
  "extractVersion_exchange payload network =
     (let prefixes = pivxPrefixes network in
      case exchange prefixes of
        Num _ \<Rightarrow> None
      | Arr ex \<Rightarrow>
          if length payload \<ge> length ex + 20 then
            (let prefixBytes = map uint (take (length ex) payload) in
             if versionEquals (Arr prefixBytes) (exchange prefixes)
             then Some \<lparr> type = ''exchange'',
                         version = exchange prefixes,
                         hash = drop (length ex) payload \<rparr>
             else None)
          else None)"

text \<open>
  \<^verbatim>\<open>typeof p === 'number' && singleByteVersion === p\<close>, the test of each single-byte slot.
\<close>

fun isNumberEqualTo :: "VersionPrefix \<Rightarrow> byte \<Rightarrow> bool" where
  "isNumberEqualTo (Num p) b = (uint b = p)"
| "isNumberEqualTo (Arr _) b = False"

text \<open>
  The rest of \<^verbatim>\<open>extractVersion\<close> (the single-byte stage). Byte 0 is read only below the
  length check, where it exists.
\<close>

definition extractVersion_single :: "Uint8Array \<Rightarrow> PivxNetwork \<Rightarrow> error + ParsedPivxAddress" where
  "extractVersion_single payload network =
     (let prefixes = pivxPrefixes network in
      if length payload < 21 then Inl PayloadTooShort
      else
        (let singleByteVersion = payload ! 0;
             h = drop 1 payload in
         if isNumberEqualTo (pubKeyHash prefixes) singleByteVersion
         then Inr \<lparr> type = ''p2pkh'', version = Num (uint singleByteVersion), hash = h \<rparr>
         else if isNumberEqualTo (scriptHash prefixes) singleByteVersion
         then Inr \<lparr> type = ''p2sh'', version = Num (uint singleByteVersion), hash = h \<rparr>
         else if isNumberEqualTo (staking prefixes) singleByteVersion
         then Inr \<lparr> type = ''staking'', version = Num (uint singleByteVersion), hash = h \<rparr>
         else Inl (UnknownPrefix singleByteVersion)))"

definition extractVersion :: "Uint8Array \<Rightarrow> PivxNetwork \<Rightarrow> error + ParsedPivxAddress" where
  "extractVersion payload network =
     (case extractVersion_exchange payload network of
        Some r \<Rightarrow> Inr r
      | None \<Rightarrow> extractVersion_single payload network)"

section \<open>Codec (pivx/address.ts)\<close>

text \<open>
  The Base58Check primitive is an external library: \<open>decode\<close> and \<open>encode\<close> are
  parameters. \<open>decode\<close> returns \<open>Inl msg\<close> where \<^verbatim>\<open>bs58check.decode\<close> throws.
\<close>

definition parsePivxBase58Address ::
  "(string \<Rightarrow> string + Uint8Array) \<Rightarrow> string \<Rightarrow> PivxNetwork \<Rightarrow> error + ParsedPivxAddress" where
  "parsePivxBase58Address decode address network =
     (case decode address of
        Inl msg \<Rightarrow> Inl (Base58CheckError msg)
      | Inr payload \<Rightarrow>
          (case extractVersion payload network of
             Inl e \<Rightarrow> Inl e
           | Inr r \<Rightarrow>
               if length (hash r) \<noteq> 20 then Inl (InvalidHashLength (length (hash r)))
               else Inr \<lparr> type = type r, version = version r, hash = hash r \<rparr>))"

text \<open>
  \<^verbatim>\<open>tools.writeUInt8(payload, 0, version)\<close> of the uint8array-tools library, as it
  behaves under Node, where the tests run: a value below 0 or above \<^verbatim>\<open>0xff\<close> is
  refused with a range error, any other is stored as that byte.
\<close>

definition writeUInt8 :: "int \<Rightarrow> error + byte" where
  "writeUInt8 v =
     (if v < 0 \<or> v > 0xff then Inl (ValueOutOfRange v) else Inr (word_of_int v))"

text \<open>
  \<^verbatim>\<open>encodePivxAddress\<close>. In the number branch the payload is 21 bytes, byte 0 the
  version and the 20 hash bytes from offset 1; in the array branch
  \<^verbatim>\<open>payload.set(version, 0)\<close> stores each element modulo 256, followed by the hash.
\<close>

definition encodePivxAddress ::
  "(Uint8Array \<Rightarrow> string) \<Rightarrow> Uint8Array \<Rightarrow> VersionPrefix \<Rightarrow> error + string" where
  "encodePivxAddress encode h ver =
     (if length h \<noteq> 20 then Inl (HashMustBe20Bytes (length h))
      else
        (case ver of
           Num v \<Rightarrow>
             (case writeUInt8 v of
                Inl e \<Rightarrow> Inl e
              | Inr b \<Rightarrow> Inr (encode (b # h)))
         | Arr vs \<Rightarrow> Inr (encode (map word_of_int vs @ h))))"

definition encodePivxExchangeAddress ::
  "(Uint8Array \<Rightarrow> string) \<Rightarrow> Uint8Array \<Rightarrow> PivxNetwork \<Rightarrow> error + string" where
  "encodePivxExchangeAddress encode h network =
     encodePivxAddress encode h (exchange (pivxPrefixes network))"

definition encodePivxStakingAddress ::
  "(Uint8Array \<Rightarrow> string) \<Rightarrow> Uint8Array \<Rightarrow> PivxNetwork \<Rightarrow> error + string" where
  "encodePivxStakingAddress encode h network =
     encodePivxAddress encode h (staking (pivxPrefixes network))"


section \<open>Script projection (pivx/address.ts)\<close>

text \<open>
  Modelled from the spec: the opcode table \<^verbatim>\<open>bscript.OPS\<close> (script.ts and ops.ts are not
  among the sources). The spec names the opcodes DUP, HASH160, EQUAL, EQUALVERIFY and
  CHECKSIG; they carry their Bitcoin Script numbers, one byte each, together with the
  push opcodes that the compiler emits.
\<close>

definition OP_0 :: byte where "OP_0 = 0x00"
definition OP_PUSHDATA1 :: byte where "OP_PUSHDATA1 = 0x4c"
definition OP_PUSHDATA2 :: byte where "OP_PUSHDATA2 = 0x4d"
definition OP_PUSHDATA4 :: byte where "OP_PUSHDATA4 = 0x4e"
definition OP_1NEGATE :: byte where "OP_1NEGATE = 0x4f"
definition OP_RESERVED :: byte where "OP_RESERVED = 0x50"
definition OP_DUP :: byte where "OP_DUP = 0x76"
definition OP_EQUAL :: byte where "OP_EQUAL = 0x87"
definition OP_EQUALVERIFY :: byte where "OP_EQUALVERIFY = 0x88"
definition OP_HASH160 :: byte where "OP_HASH160 = 0xa9"
definition OP_CHECKSIG :: byte where "OP_CHECKSIG = 0xac"

text \<open>
  Modelled from the spec: the argument of the script compiler, a "sequence of opcodes and
  byte-string operands" (\<^verbatim>\<open>number | Uint8Array\<close> elements; script.ts is not among the
  sources).
\<close>

datatype chunk = Op byte | Data Uint8Array

text \<open>
  Modelled from the spec: the minimal-push rule of the script compiler (script.ts is not
  among the sources): an empty operand and the one-byte operands 1..16 and 0x81 are
  emitted as a single opcode.
\<close>

definition asMinimalOP :: "Uint8Array \<Rightarrow> byte option" where
  "asMinimalOP buffer =
     (if length buffer = 0 then Some OP_0
      else if length buffer \<noteq> 1 then None
      else if 1 \<le> buffer ! 0 \<and> buffer ! 0 \<le> 16 then Some (OP_RESERVED + buffer ! 0)
      else if buffer ! 0 = 0x81 then Some OP_1NEGATE
      else None)"

text \<open>
  Modelled from the spec: the length header of a pushed operand (push_data.ts is not among
  the sources): the length itself below 76, otherwise a push opcode followed by the
  length in 1, 2 or 4 little-endian bytes. A 20-byte hash so takes 21 bytes, which gives
  the 25, 23 and 26 bytes of the spec's script table.
\<close>

definition pushdata_encode :: "nat \<Rightarrow> Uint8Array" where
  "pushdata_encode n =
     (if n < 76 then [word_of_nat n]
      else if n \<le> 0xff then [OP_PUSHDATA1, word_of_nat n]
      else if n \<le> 0xffff then [OP_PUSHDATA2, word_of_nat n, word_of_nat (n div 256)]
      else [OP_PUSHDATA4, word_of_nat n, word_of_nat (n div 256),
            word_of_nat (n div 65536), word_of_nat (n div 16777216)])"

text \<open>
  Modelled from the spec: \<^verbatim>\<open>bscript.compile\<close> (script.ts is not among the sources),
  "compile(sequence of opcodes and byte-string operands) -> bytes, deterministic, no
  failure modes relevant to this core's usage": each opcode is one byte, each operand a
  push of its bytes, in sequence order.
\<close>

fun compile_chunk :: "chunk \<Rightarrow> Uint8Array" where
  "compile_chunk (Op opcode) = [opcode]"
| "compile_chunk (Data d) =
     (case asMinimalOP d of
        Some opcode \<Rightarrow> [opcode]
      | None \<Rightarrow> pushdata_encode (length d) @ d)"

definition compile :: "chunk list \<Rightarrow> Uint8Array" where
  "compile chunks = concat (map compile_chunk chunks)"

text \<open>
  \<^verbatim>\<open>pivxAddressToOutputScript\<close>: the \<^verbatim>\<open>switch\<close> on \<^verbatim>\<open>parsed.type\<close>, its cases in the
  order of the source, the \<^verbatim>\<open>default\<close> branch last.
\<close>

definition pivxAddressToOutputScript ::
  "(string \<Rightarrow> string + Uint8Array) \<Rightarrow> string \<Rightarrow> PivxNetwork \<Rightarrow> error + Uint8Array" where
  "pivxAddressToOutputScript decode address network =
     (case parsePivxBase58Address decode address network of
        Inl e \<Rightarrow> Inl e
      | Inr parsed \<Rightarrow>
          if type parsed = ''p2pkh'' \<or> type parsed = ''staking'' then
            Inr (compile [Op OP_DUP, Op OP_HASH160, Data (hash parsed),
                          Op OP_EQUALVERIFY, Op OP_CHECKSIG])
          else if type parsed = ''exchange'' then
            Inr (compile [Op 0xe0, Op OP_DUP, Op OP_HASH160, Data (hash parsed),
                          Op OP_EQUALVERIFY, Op OP_CHECKSIG])
          else if type parsed = ''p2sh'' then
            Inr (compile [Op OP_HASH160, Data (hash parsed), Op OP_EQUAL])
          else Inl (UnknownAddressType (type parsed)))"

definition toOutputScript ::
  "(string \<Rightarrow> string + Uint8Array) \<Rightarrow> string \<Rightarrow> PivxNetwork \<Rightarrow> error + Uint8Array" where
  "toOutputScript decode address network = pivxAddressToOutputScript decode address network"

section \<open>An instance of the Base58Check contract\<close>

text \<open>
  The theorems below hold for every codec with \<open>decode (encode b) = Inr b\<close>. To run them
  on concrete addresses, one codec with that property: each byte becomes the character
  of the same code, after a one-byte additive checksum is appended; decoding refuses an
  empty string and a wrong checksum.
\<close>

definition byteToChar :: "byte \<Rightarrow> char" where
  "byteToChar b = char_of (unat b)"

definition charToByte :: "char \<Rightarrow> byte" where
  "charToByte c = word_of_nat (of_char c)"

definition checksum :: "Uint8Array \<Rightarrow> byte" where
  "checksum bs = sum_list bs"

definition sumcheckEncode :: "Uint8Array \<Rightarrow> string" where
  "sumcheckEncode bs = map byteToChar (bs @ [checksum bs])"

definition sumcheckDecode :: "string \<Rightarrow> string + Uint8Array" where
  "sumcheckDecode s =
     (let bs = map charToByte s in
      if bs = [] then Inl ''Empty input''
      else if last bs \<noteq> checksum (butlast bs) then Inl ''Invalid checksum''
      else Inr (butlast bs))"

text \<open>
  A registry that differs from \<open>pivx\<close> in one slot: its \<open>pubKeyHash\<close> prefix is the first
  byte of the exchange prefix, so that single-byte matching, if it ran first, would
  claim every exchange payload.
\<close>

definition shadowingNetwork :: PivxNetwork where
  "shadowingNetwork = pivx \<lparr> pivxPrefixes := (pivxPrefixes pivx) \<lparr> pubKeyHash := Num 0x01 \<rparr> \<rparr>"

section \<open>Auxiliary facts\<close>

lemma charToByte_byteToChar: "charToByte (byteToChar b) = b"
proof -
  have "unat b < 2 ^ LENGTH(8)" by (rule unsigned_less)
  then have "unat b < 256" by simp
  then have "(of_char (char_of (unat b)) :: nat) = unat b" by simp
  then show ?thesis by (simp only: charToByte_def byteToChar_def of_nat_unat) simp
qed

lemma map_charToByte_byteToChar: "map charToByte (map byteToChar bs) = bs"
  by (induction bs) (simp_all only: list.map charToByte_byteToChar)

lemma sumcheck_roundtrip: "sumcheckDecode (sumcheckEncode b) = Inr b"
proof -
  have "map charToByte (sumcheckEncode b) = b @ [checksum b]"
    by (simp only: sumcheckEncode_def map_charToByte_byteToChar)
  then show ?thesis
    by (simp only: sumcheckDecode_def Let_def) simp
qed

text \<open>On arrays, \<open>versionEquals\<close> is equality of the two lists.\<close>

lemma versionEquals_Arr: "versionEquals (Arr a) (Arr b) = (a = b)"
proof -
  have "versionEquals (Arr a) (Arr b) = (length a = length b \<and> (\<forall>i<length a. a ! i = b ! i))"
    by (auto simp: list_all_iff)
  also have "\<dots> = (a = b)"
    by (rule list_eq_iff_nth_eq [symmetric])
  finally show ?thesis .
qed

lemma map_uint_eq: "(map uint xs = map uint ys) = (xs = (ys :: byte list))"
  by (rule inj_map_eq_map) simp

lemma registered_bytes: "map uint [0x01, 0xb9, 0xa2 :: byte] = [0x01, 0xb9, 0xa2]"
  by simp

text \<open>The multi-byte stage under a registry whose exchange slot is the registered prefix.\<close>

lemma exchange_stage_registered:
  assumes "exchange (pivxPrefixes network) = Arr [0x01, 0xb9, 0xa2]"
  shows "extractVersion_exchange payload network =
     (if 23 \<le> length payload \<and> take 3 payload = [0x01, 0xb9, 0xa2]
      then Some \<lparr> type = ''exchange'', version = Arr [0x01, 0xb9, 0xa2], hash = drop 3 payload \<rparr>
      else None)"
proof -
  have eq: "(map uint (take 3 payload) = [0x01, 0xb9, 0xa2]) = (take 3 payload = [0x01, 0xb9, 0xa2])"
    using map_uint_eq [of "take 3 payload" "[0x01, 0xb9, 0xa2]"]
    by (simp only: registered_bytes)
  have len: "length [0x01, 0xb9, 0xa2 :: int] = 3" by simp
  have "extractVersion_exchange payload network =
     (if 23 \<le> length payload then
        (if versionEquals (Arr (map uint (take 3 payload))) (Arr [0x01, 0xb9, 0xa2])
         then Some \<lparr> type = ''exchange'', version = Arr [0x01, 0xb9, 0xa2], hash = drop 3 payload \<rparr>
         else None)
      else None)"
    by (simp only: extractVersion_exchange_def Let_def assms VersionPrefix.case len) simp
  then show ?thesis
    by (simp only: versionEquals_Arr eq) simp
qed

lemma pivx_exchange: "exchange (pivxPrefixes pivx) = Arr [0x01, 0xb9, 0xa2]"
  by (simp add: pivx_def)

lemma pivx_singles:
  "pubKeyHash (pivxPrefixes pivx) = Num 0x1e"
  "scriptHash (pivxPrefixes pivx) = Num 0x0d"
  "staking (pivxPrefixes pivx) = Num 0x3f"
  by (simp_all add: pivx_def)

lemma shadowing_prefixes:
  "exchange (pivxPrefixes shadowingNetwork) = Arr [0x01, 0xb9, 0xa2]"
  "pubKeyHash (pivxPrefixes shadowingNetwork) = Num 0x01"
  by (simp_all add: shadowingNetwork_def pivx_def)

lemma uint_eq_numeral:
  "(uint (b :: byte) = 0x1e) = (b = 0x1e)"
  "(uint (b :: byte) = 0x0d) = (b = 0x0d)"
  "(uint (b :: byte) = 0x3f) = (b = 0x3f)"
  by (auto simp: word_uint_eq_iff)

text \<open>The single-byte stage under the registered network.\<close>

lemma single_stage_pivx:
  "extractVersion_single payload pivx =
     (if length payload < 21 then Inl PayloadTooShort
      else if payload ! 0 = 0x1e
        then Inr \<lparr> type = ''p2pkh'', version = Num 0x1e, hash = drop 1 payload \<rparr>
      else if payload ! 0 = 0x0d
        then Inr \<lparr> type = ''p2sh'', version = Num 0x0d, hash = drop 1 payload \<rparr>
      else if payload ! 0 = 0x3f
        then Inr \<lparr> type = ''staking'', version = Num 0x3f, hash = drop 1 payload \<rparr>
      else Inl (UnknownPrefix (payload ! 0)))"
  by (simp add: extractVersion_single_def Let_def pivx_singles uint_eq_numeral)

lemma extractVersion_pivx:
  "extractVersion payload pivx =
     (if 23 \<le> length payload \<and> take 3 payload = [0x01, 0xb9, 0xa2]
      then Inr \<lparr> type = ''exchange'', version = Arr [0x01, 0xb9, 0xa2], hash = drop 3 payload \<rparr>
      else extractVersion_single payload pivx)"
  by (simp add: extractVersion_def exchange_stage_registered [OF pivx_exchange])

text \<open>What the matcher and the decoder can return.\<close>

lemma extractVersion_exchange_type:
  "extractVersion_exchange payload network = Some r \<Longrightarrow> type r = ''exchange''"
  by (auto simp: extractVersion_exchange_def Let_def split: VersionPrefix.splits if_splits)

lemma extractVersion_single_type:
  "extractVersion_single payload network = Inr r \<Longrightarrow>
     type r = ''p2pkh'' \<or> type r = ''p2sh'' \<or> type r = ''staking''"
  by (auto simp: extractVersion_single_def Let_def split: if_splits)

lemma extractVersion_type:
  "extractVersion payload network = Inr r \<Longrightarrow> type r \<in> set KNOWN_TYPES"
  unfolding extractVersion_def KNOWN_TYPES_def
  by (auto split: option.splits dest: extractVersion_exchange_type extractVersion_single_type)

lemma parse_Inr:
  assumes "parsePivxBase58Address decode address network = Inr r"
  shows "length (hash r) = 20 \<and> type r \<in> set KNOWN_TYPES"
proof -
  from assms obtain payload e where
    "extractVersion payload network = Inr e" "length (hash e) = 20"
    "r = \<lparr> type = type e, version = version e, hash = hash e \<rparr>"
    by (auto simp: parsePivxBase58Address_def split: sum.splits if_splits)
  then show ?thesis using extractVersion_type [of payload network e] by simp
qed

lemma extractVersion_single_error:
  "extractVersion_single payload network = Inl e \<Longrightarrow> isDecodeStageError e"
  by (auto simp: extractVersion_single_def Let_def split: if_splits)

lemma parse_Inl:
  "parsePivxBase58Address decode address network = Inl e \<Longrightarrow> isDecodeStageError e"
  by (auto simp: parsePivxBase58Address_def extractVersion_def
        split: sum.splits if_splits option.splits dest: extractVersion_single_error)

text \<open>Decoding a concrete payload under the registered network.\<close>

lemma parse_pivx_single:
  assumes "decode address = Inr (b # H)" and "length H = 20"
  shows "parsePivxBase58Address decode address pivx =
     (if b = 0x1e then Inr \<lparr> type = ''p2pkh'', version = Num 0x1e, hash = H \<rparr>
      else if b = 0x0d then Inr \<lparr> type = ''p2sh'', version = Num 0x0d, hash = H \<rparr>
      else if b = 0x3f then Inr \<lparr> type = ''staking'', version = Num 0x3f, hash = H \<rparr>
      else Inl (UnknownPrefix b))"
  using assms by (simp add: parsePivxBase58Address_def extractVersion_pivx single_stage_pivx)

lemma parse_pivx_exchange:
  assumes "decode address = Inr ([0x01, 0xb9, 0xa2] @ H)" and "length H = 20"
  shows "parsePivxBase58Address decode address pivx =
     Inr \<lparr> type = ''exchange'', version = Arr [0x01, 0xb9, 0xa2], hash = H \<rparr>"
  using assms by (simp add: parsePivxBase58Address_def extractVersion_pivx)

text \<open>The three scripts, compiled for a 20-byte operand.\<close>

lemma compile_p2pkh:
  "length H = 20 \<Longrightarrow>
   compile [Op OP_DUP, Op OP_HASH160, Data H, Op OP_EQUALVERIFY, Op OP_CHECKSIG] =
     [OP_DUP, OP_HASH160, 0x14] @ H @ [OP_EQUALVERIFY, OP_CHECKSIG]"
  by (simp add: compile_def asMinimalOP_def pushdata_encode_def)

lemma compile_exchange:
  "length H = 20 \<Longrightarrow>
   compile [Op 0xe0, Op OP_DUP, Op OP_HASH160, Data H, Op OP_EQUALVERIFY, Op OP_CHECKSIG] =
     0xe0 # [OP_DUP, OP_HASH160, 0x14] @ H @ [OP_EQUALVERIFY, OP_CHECKSIG]"
  by (simp add: compile_def asMinimalOP_def pushdata_encode_def)

lemma compile_p2sh:
  "length H = 20 \<Longrightarrow>
   compile [Op OP_HASH160, Data H, Op OP_EQUAL] = [OP_HASH160, 0x14] @ H @ [OP_EQUAL]"
  by (simp add: compile_def asMinimalOP_def pushdata_encode_def)

section \<open>Round trip\<close>

text \<open>
  Claim C1. Let the Base58Check primitive satisfy \<open>decode (encode b) = Inr b\<close> for every
  byte string, and let \<open>H\<close> be a 20-byte hash. For each of the four classes of the
  registered network (pubKeyHash 0x1e, scriptHash 0x0d, staking 0x3f, exchange
  [0x01, 0xb9, 0xa2]), \<open>encodePivxAddress\<close> returns an address, and
  \<open>parsePivxBase58Address\<close> on that address returns exactly the class, the same prefix
  value and the hash \<open>H\<close>.
\<close>

theorem C1_encode_decode_roundtrip:
  assumes "\<forall>b. decode (encode b) = Inr b"
    and "length H = 20"
  shows "pivxPrefixes pivx = \<lparr> pubKeyHash = Num 0x1e, scriptHash = Num 0x0d,
                               staking = Num 0x3f, exchange = Arr [0x01, 0xb9, 0xa2] \<rparr>
     \<and> (\<exists>a. encodePivxAddress encode H (Num 0x1e) = Inr a \<and>
            parsePivxBase58Address decode a pivx =
              Inr \<lparr> type = ''p2pkh'', version = Num 0x1e, hash = H \<rparr>)
     \<and> (\<exists>a. encodePivxAddress encode H (Num 0x0d) = Inr a \<and>
            parsePivxBase58Address decode a pivx =
              Inr \<lparr> type = ''p2sh'', version = Num 0x0d, hash = H \<rparr>)
     \<and> (\<exists>a. encodePivxAddress encode H (Num 0x3f) = Inr a \<and>
            parsePivxBase58Address decode a pivx =
              Inr \<lparr> type = ''staking'', version = Num 0x3f, hash = H \<rparr>)
     \<and> (\<exists>a. encodePivxAddress encode H (Arr [0x01, 0xb9, 0xa2]) = Inr a \<and>
            parsePivxBase58Address decode a pivx =
              Inr \<lparr> type = ''exchange'', version = Arr [0x01, 0xb9, 0xa2], hash = H \<rparr>)"
proof -
  have registry: "pivxPrefixes pivx = \<lparr> pubKeyHash = Num 0x1e, scriptHash = Num 0x0d,
                               staking = Num 0x3f, exchange = Arr [0x01, 0xb9, 0xa2] \<rparr>"
    by (simp add: pivx_def)
  have dec: "decode (encode p) = Inr p" for p
    using assms(1) by simp
  have single: "encodePivxAddress encode H (Num v) = Inr (encode (word_of_int v # H))"
    if "0 \<le> v" and "v \<le> 0xff" for v
    using that assms(2) by (simp add: encodePivxAddress_def writeUInt8_def)
  have multi: "encodePivxAddress encode H (Arr [0x01, 0xb9, 0xa2]) =
      Inr (encode ([0x01, 0xb9, 0xa2] @ H))"
    using assms(2) by (simp add: encodePivxAddress_def)
  have p2pkh: "parsePivxBase58Address decode (encode (0x1e # H)) pivx =
      Inr \<lparr> type = ''p2pkh'', version = Num 0x1e, hash = H \<rparr>"
    using parse_pivx_single [of decode "encode (0x1e # H)" "0x1e" H] dec assms(2) by simp
  have p2sh: "parsePivxBase58Address decode (encode (0x0d # H)) pivx =
      Inr \<lparr> type = ''p2sh'', version = Num 0x0d, hash = H \<rparr>"
    using parse_pivx_single [of decode "encode (0x0d # H)" "0x0d" H] dec assms(2) by simp
  have stake: "parsePivxBase58Address decode (encode (0x3f # H)) pivx =
      Inr \<lparr> type = ''staking'', version = Num 0x3f, hash = H \<rparr>"
    using parse_pivx_single [of decode "encode (0x3f # H)" "0x3f" H] dec assms(2) by simp
  have exch: "parsePivxBase58Address decode (encode ([0x01, 0xb9, 0xa2] @ H)) pivx =
      Inr \<lparr> type = ''exchange'', version = Arr [0x01, 0xb9, 0xa2], hash = H \<rparr>"
    using parse_pivx_exchange [of decode "encode ([0x01, 0xb9, 0xa2] @ H)" H] dec assms(2) by simp
  show ?thesis
    using registry single [of "0x1e"] single [of "0x0d"] single [of "0x3f"] multi
      p2pkh p2sh stake exch
    by simp
qed

theorem C1_encode_decode_roundtrip_witness:
  "(\<forall>b. sumcheckDecode (sumcheckEncode b) = Inr b)
 \<and> length (replicate 20 (0x12 :: byte)) = 20
 \<and> (\<exists>a. encodePivxAddress sumcheckEncode (replicate 20 0x12) (Num 0x1e) = Inr a \<and>
        parsePivxBase58Address sumcheckDecode a pivx =
          Inr \<lparr> type = ''p2pkh'', version = Num 0x1e, hash = replicate 20 0x12 \<rparr>)
 \<and> (\<exists>a. encodePivxAddress sumcheckEncode (replicate 20 0x12) (Arr [0x01, 0xb9, 0xa2]) = Inr a \<and>
        parsePivxBase58Address sumcheckDecode a pivx =
          Inr \<lparr> type = ''exchange'', version = Arr [0x01, 0xb9, 0xa2], hash = replicate 20 0x12 \<rparr>)"
proof -
  have h1: "\<forall>b. sumcheckDecode (sumcheckEncode b) = Inr b"
    by (simp add: sumcheck_roundtrip)
  have h2: "length (replicate 20 (0x12 :: byte)) = 20"
    by simp
  show ?thesis
    using h1 h2 C1_encode_decode_roundtrip [OF h1 h2] by blast
qed

section \<open>Prefix matcher: priority and fall-through\<close>

text \<open>
  Claim C2. Under every registry whose exchange slot is the registered prefix
  [0x01, 0xb9, 0xa2], whatever its three single-byte slots hold, a payload of length at
  least 23 whose first three bytes are that prefix is classified exchange with hash
  \<open>payload[3:]\<close>: the multi-byte stage returns, and the single-byte stage is not
  reached.
\<close>

theorem C2_exchange_prefix_first:
  assumes "exchange (pivxPrefixes network) = Arr [0x01, 0xb9, 0xa2]"
    and "23 \<le> length payload"
    and "take 3 payload = [0x01, 0xb9, 0xa2]"
  shows "extractVersion_exchange payload network =
           Some \<lparr> type = ''exchange'', version = Arr [0x01, 0xb9, 0xa2], hash = drop 3 payload \<rparr>
       \<and> extractVersion payload network =
           Inr \<lparr> type = ''exchange'', version = Arr [0x01, 0xb9, 0xa2], hash = drop 3 payload \<rparr>"
  using assms by (simp add: extractVersion_def exchange_stage_registered)

text \<open>
  The witness runs the theorem under \<open>shadowingNetwork\<close>, where the single-byte stage
  alone would have answered p2pkh on the same payload.
\<close>

theorem C2_exchange_prefix_first_witness:
  "exchange (pivxPrefixes shadowingNetwork) = Arr [0x01, 0xb9, 0xa2]
 \<and> 23 \<le> length ([0x01, 0xb9, 0xa2] @ replicate 20 (0x78 :: byte))
 \<and> take 3 ([0x01, 0xb9, 0xa2] @ replicate 20 (0x78 :: byte)) = [0x01, 0xb9, 0xa2]
 \<and> extractVersion ([0x01, 0xb9, 0xa2] @ replicate 20 0x78) shadowingNetwork =
      Inr \<lparr> type = ''exchange'', version = Arr [0x01, 0xb9, 0xa2], hash = replicate 20 0x78 \<rparr>
 \<and> extractVersion_single ([0x01, 0xb9, 0xa2] @ replicate 20 0x78) shadowingNetwork =
      Inr \<lparr> type = ''p2pkh'', version = Num 0x01, hash = [0xb9, 0xa2] @ replicate 20 0x78 \<rparr>"
proof -
  have h1: "exchange (pivxPrefixes shadowingNetwork) = Arr [0x01, 0xb9, 0xa2]"
    by (rule shadowing_prefixes)
  have h2: "23 \<le> length ([0x01, 0xb9, 0xa2] @ replicate 20 (0x78 :: byte))"
    by simp
  have h3: "take 3 ([0x01, 0xb9, 0xa2] @ replicate 20 (0x78 :: byte)) = [0x01, 0xb9, 0xa2]"
    by simp
  have single: "extractVersion_single ([0x01, 0xb9, 0xa2] @ replicate 20 0x78) shadowingNetwork =
      Inr \<lparr> type = ''p2pkh'', version = Num 0x01, hash = [0xb9, 0xa2] @ replicate 20 0x78 \<rparr>"
    by (simp add: extractVersion_single_def shadowing_prefixes)
  show ?thesis
    using h1 h2 h3 single C2_exchange_prefix_first [OF h1 h2 h3] by simp
qed

text \<open>
  Claim C3. Under the registered network, a payload of length at least 23 whose first
  three bytes are not the exchange prefix leaves the multi-byte stage without a result
  and without a failure: the matcher's answer is that of the single-byte stage, which is
  not "payload too short"; with byte 0 equal to 0x1e it is pubKeyHash with hash
  \<open>payload[1:]\<close>.
\<close>

theorem C3_fall_through_to_single_byte:
  assumes "23 \<le> length payload"
    and "take 3 payload \<noteq> [0x01, 0xb9, 0xa2]"
  shows "extractVersion_exchange payload pivx = None
       \<and> extractVersion payload pivx = extractVersion_single payload pivx
       \<and> extractVersion payload pivx \<noteq> Inl PayloadTooShort
       \<and> (payload ! 0 = 0x1e \<longrightarrow> extractVersion payload pivx =
             Inr \<lparr> type = ''p2pkh'', version = Num 0x1e, hash = drop 1 payload \<rparr>)"
  using assms
  by (simp add: extractVersion_def exchange_stage_registered [OF pivx_exchange] single_stage_pivx)

theorem C3_fall_through_to_single_byte_witness:
  "23 \<le> length (0x1e # replicate 22 (0x00 :: byte))
 \<and> take 3 (0x1e # replicate 22 (0x00 :: byte)) \<noteq> [0x01, 0xb9, 0xa2]
 \<and> (0x1e # replicate 22 (0x00 :: byte)) ! 0 = 0x1e
 \<and> extractVersion_exchange (0x1e # replicate 22 0x00) pivx = None
 \<and> extractVersion (0x1e # replicate 22 0x00) pivx =
      Inr \<lparr> type = ''p2pkh'', version = Num 0x1e, hash = replicate 22 0x00 \<rparr>"
proof -
  have h1: "23 \<le> length (0x1e # replicate 22 (0x00 :: byte))"
    by simp
  have h2: "take 3 (0x1e # replicate 22 (0x00 :: byte)) \<noteq> [0x01, 0xb9, 0xa2]"
    by simp
  have h3: "(0x1e # replicate 22 (0x00 :: byte)) ! 0 = 0x1e"
    by simp
  have d: "drop 1 (0x1e # replicate 22 (0x00 :: byte)) = replicate 22 0x00"
    by simp
  note fall = C3_fall_through_to_single_byte [OF h1 h2]
  from fall have n: "extractVersion_exchange (0x1e # replicate 22 0x00) pivx = None"
    by blast
  from fall h3 have "extractVersion (0x1e # replicate 22 0x00) pivx =
      Inr \<lparr> type = ''p2pkh'', version = Num 0x1e, hash = drop 1 (0x1e # replicate 22 0x00) \<rparr>"
    by blast
  then have r: "extractVersion (0x1e # replicate 22 0x00) pivx =
      Inr \<lparr> type = ''p2pkh'', version = Num 0x1e, hash = replicate 22 0x00 \<rparr>"
    by (simp only: d)
  show ?thesis
    using h1 h2 h3 n r by blast
qed

section \<open>Prefix matcher: failures\<close>

text \<open>
  Claim C4. A payload shorter than 21 bytes on which the multi-byte stage returned
  nothing fails with "payload too short", under every registry; under the registered
  network the multi-byte stage never returns on such a payload, so every payload shorter
  than 21 bytes fails so. The empty payload is among them: the length is checked before
  byte 0 is read.
\<close>

theorem C4_payload_too_short:
  assumes "length payload < 21"
  shows "(extractVersion_exchange payload network = None \<longrightarrow>
            extractVersion payload network = Inl PayloadTooShort)
       \<and> extractVersion payload pivx = Inl PayloadTooShort"
  using assms
  by (simp add: extractVersion_def exchange_stage_registered [OF pivx_exchange]
        extractVersion_single_def)

theorem C4_payload_too_short_witness:
  "length (replicate 15 (0x1e :: byte)) < 21
 \<and> extractVersion_exchange (replicate 15 0x1e) pivx = None
 \<and> extractVersion (replicate 15 0x1e) pivx = Inl PayloadTooShort
 \<and> extractVersion [] pivx = Inl PayloadTooShort"
proof -
  have h1: "length (replicate 15 (0x1e :: byte)) < 21"
    by simp
  have h2: "extractVersion_exchange (replicate 15 0x1e) pivx = None"
    by (simp add: exchange_stage_registered [OF pivx_exchange])
  have h3: "length ([] :: byte list) < 21"
    by simp
  show ?thesis
    using h1 h2 C4_payload_too_short [OF h1, of pivx] C4_payload_too_short [OF h3, of pivx]
    by simp
qed

text \<open>
  Claim C5. Under the registered network, a decoded payload of length at least 21 whose
  byte 0 is none of 0x1e, 0x0d, 0x3f and whose first three bytes are not the exchange
  prefix [0x01, 0xb9, 0xa2] fails with "unknown prefix", in the matcher and so in the
  decoder, and the failure carries byte 0 of the payload.
\<close>

theorem C5_unknown_prefix:
  assumes "decode address = Inr payload"
    and "21 \<le> length payload"
    and "payload ! 0 \<noteq> 0x1e"
    and "payload ! 0 \<noteq> 0x0d"
    and "payload ! 0 \<noteq> 0x3f"
    and "take 3 payload \<noteq> [0x01, 0xb9, 0xa2]"
  shows "extractVersion payload pivx = Inl (UnknownPrefix (payload ! 0))
       \<and> parsePivxBase58Address decode address pivx = Inl (UnknownPrefix (payload ! 0))"
proof -
  have "extractVersion payload pivx = extractVersion_single payload pivx"
    using assms(6) by (simp add: extractVersion_pivx)
  also have "\<dots> = Inl (UnknownPrefix (payload ! 0))"
    using assms(2-5) by (simp add: single_stage_pivx)
  finally have matcher: "extractVersion payload pivx = Inl (UnknownPrefix (payload ! 0))" .
  then show ?thesis
    using assms(1) by (simp add: parsePivxBase58Address_def)
qed

text \<open>
  The witness runs the theorem on the 21-byte payload with leading byte 0xff, and on a
  25-byte payload that shares only two bytes with the exchange prefix.
\<close>

theorem C5_unknown_prefix_witness:
  "sumcheckDecode (sumcheckEncode (0xff # replicate 20 0xaa)) = Inr (0xff # replicate 20 0xaa)
 \<and> 21 \<le> length (0xff # replicate 20 (0xaa :: byte))
 \<and> (0xff # replicate 20 (0xaa :: byte)) ! 0 \<noteq> 0x1e
 \<and> (0xff # replicate 20 (0xaa :: byte)) ! 0 \<noteq> 0x0d
 \<and> (0xff # replicate 20 (0xaa :: byte)) ! 0 \<noteq> 0x3f
 \<and> take 3 (0xff # replicate 20 (0xaa :: byte)) \<noteq> [0x01, 0xb9, 0xa2]
 \<and> extractVersion (0xff # replicate 20 0xaa) pivx = Inl (UnknownPrefix 0xff)
 \<and> parsePivxBase58Address sumcheckDecode (sumcheckEncode (0xff # replicate 20 0xaa)) pivx =
      Inl (UnknownPrefix 0xff)
 \<and> take 3 ([0x01, 0xb9, 0x00] @ replicate 22 (0xaa :: byte)) \<noteq> [0x01, 0xb9, 0xa2]
 \<and> extractVersion ([0x01, 0xb9, 0x00] @ replicate 22 0xaa) pivx = Inl (UnknownPrefix 0x01)
 \<and> parsePivxBase58Address sumcheckDecode
      (sumcheckEncode ([0x01, 0xb9, 0x00] @ replicate 22 0xaa)) pivx = Inl (UnknownPrefix 0x01)"
proof -
  have h1: "sumcheckDecode (sumcheckEncode (0xff # replicate 20 0xaa)) =
      Inr (0xff # replicate 20 0xaa)"
    by (rule sumcheck_roundtrip)
  have h2: "21 \<le> length (0xff # replicate 20 (0xaa :: byte))"
    by simp
  have h3: "(0xff # replicate 20 (0xaa :: byte)) ! 0 \<noteq> 0x1e"
    by simp
  have h4: "(0xff # replicate 20 (0xaa :: byte)) ! 0 \<noteq> 0x0d"
    by simp
  have h5: "(0xff # replicate 20 (0xaa :: byte)) ! 0 \<noteq> 0x3f"
    by simp
  have h6: "take 3 (0xff # replicate 20 (0xaa :: byte)) \<noteq> [0x01, 0xb9, 0xa2]"
    by simp
  have b0: "(0xff # replicate 20 (0xaa :: byte)) ! 0 = 0xff"
    by simp
  note first = C5_unknown_prefix [of sumcheckDecode "sumcheckEncode (0xff # replicate 20 0xaa)"
      "0xff # replicate 20 0xaa", OF h1 h2 h3 h4 h5 h6, unfolded b0]
  have g1: "sumcheckDecode (sumcheckEncode ([0x01, 0xb9, 0x00] @ replicate 22 0xaa)) =
      Inr ([0x01, 0xb9, 0x00] @ replicate 22 0xaa)"
    by (rule sumcheck_roundtrip)
  have g2: "21 \<le> length ([0x01, 0xb9, 0x00] @ replicate 22 (0xaa :: byte))"
    by simp
  have g3: "([0x01, 0xb9, 0x00] @ replicate 22 (0xaa :: byte)) ! 0 \<noteq> 0x1e"
    by simp
  have g4: "([0x01, 0xb9, 0x00] @ replicate 22 (0xaa :: byte)) ! 0 \<noteq> 0x0d"
    by simp
  have g5: "([0x01, 0xb9, 0x00] @ replicate 22 (0xaa :: byte)) ! 0 \<noteq> 0x3f"
    by simp
  have g6: "take 3 ([0x01, 0xb9, 0x00] @ replicate 22 (0xaa :: byte)) \<noteq> [0x01, 0xb9, 0xa2]"
    by simp
  have c0: "([0x01, 0xb9, 0x00] @ replicate 22 (0xaa :: byte)) ! 0 = 0x01"
    by simp
  note second = C5_unknown_prefix [of sumcheckDecode
      "sumcheckEncode ([0x01, 0xb9, 0x00] @ replicate 22 0xaa)"
      "[0x01, 0xb9, 0x00] @ replicate 22 0xaa", OF g1 g2 g3 g4 g5 g6, unfolded c0]
  show ?thesis
    using h1 h2 h3 h4 h5 h6 g6 first second by blast
qed

text \<open>
  Claim C10. Under the registered network, a decoded payload of 21 or 22 bytes that
  begins with the exchange prefix is too short for the multi-byte stage and long enough
  for the single-byte stage, where byte 0 (0x01) is no registered prefix: matcher and
  decoder fail with "unknown prefix" carrying 0x01, which is neither an exchange result
  nor "payload too short" nor "invalid hash length".
\<close>

theorem C10_short_exchange_payload_unknown_prefix:
  assumes "decode address = Inr payload"
    and "take 3 payload = [0x01, 0xb9, 0xa2]"
    and "length payload = 21 \<or> length payload = 22"
  shows "extractVersion payload pivx = Inl (UnknownPrefix 0x01)
       \<and> parsePivxBase58Address decode address pivx = Inl (UnknownPrefix 0x01)"
proof -
  from assms(2,3) have "payload ! 0 = 0x01"
    by (metis nth_take nth_Cons_0 zero_less_numeral)
  with assms show ?thesis
    by (auto simp: parsePivxBase58Address_def extractVersion_def
          exchange_stage_registered [OF pivx_exchange] single_stage_pivx)
qed

theorem C10_short_exchange_payload_unknown_prefix_witness:
  "sumcheckDecode (sumcheckEncode ([0x01, 0xb9, 0xa2] @ replicate 19 0x78)) =
      Inr ([0x01, 0xb9, 0xa2] @ replicate 19 0x78)
 \<and> take 3 ([0x01, 0xb9, 0xa2] @ replicate 19 (0x78 :: byte)) = [0x01, 0xb9, 0xa2]
 \<and> length ([0x01, 0xb9, 0xa2] @ replicate 19 (0x78 :: byte)) = 22
 \<and> extractVersion ([0x01, 0xb9, 0xa2] @ replicate 19 0x78) pivx = Inl (UnknownPrefix 0x01)
 \<and> parsePivxBase58Address sumcheckDecode
      (sumcheckEncode ([0x01, 0xb9, 0xa2] @ replicate 19 0x78)) pivx = Inl (UnknownPrefix 0x01)"
proof -
  have h1: "sumcheckDecode (sumcheckEncode ([0x01, 0xb9, 0xa2] @ replicate 19 0x78)) =
      Inr ([0x01, 0xb9, 0xa2] @ replicate 19 0x78)"
    by (rule sumcheck_roundtrip)
  have h2: "take 3 ([0x01, 0xb9, 0xa2] @ replicate 19 (0x78 :: byte)) = [0x01, 0xb9, 0xa2]"
    by simp
  have len: "length ([0x01, 0xb9, 0xa2] @ replicate 19 (0x78 :: byte)) = 22"
    by simp
  then have h3: "length ([0x01, 0xb9, 0xa2] @ replicate 19 (0x78 :: byte)) = 21
      \<or> length ([0x01, 0xb9, 0xa2] @ replicate 19 (0x78 :: byte)) = 22"
    by (rule disjI2)
  show ?thesis
    using h1 h2 h3 len
      C10_short_exchange_payload_unknown_prefix [of sumcheckDecode
        "sumcheckEncode ([0x01, 0xb9, 0xa2] @ replicate 19 0x78)"
        "[0x01, 0xb9, 0xa2] @ replicate 19 0x78"]
    by blast
qed

section \<open>Codec: hash length\<close>

text \<open>
  Claim C6. For a hash whose length is not 20, \<open>encodePivxAddress\<close> fails with "hash
  must be 20 bytes", reporting the actual length, for every version prefix and every
  Base58Check encoder: the result depends on neither, so the failure comes before the
  payload is assembled (a version above 0xff, which the write of the version byte would
  refuse, makes no difference) and before the encoder is called.
\<close>

theorem C6_encode_rejects_hash_length:
  assumes "length h \<noteq> 20"
  shows "encodePivxAddress encode h ver = Inl (HashMustBe20Bytes (length h))"
  using assms by (simp add: encodePivxAddress_def)

theorem C6_encode_rejects_hash_length_witness:
  "length (replicate 10 (0x00 :: byte)) \<noteq> 20
 \<and> length (replicate 30 (0x00 :: byte)) \<noteq> 20
 \<and> encodePivxAddress sumcheckEncode (replicate 10 0x00) (Num 0x1e) = Inl (HashMustBe20Bytes 10)
 \<and> encodePivxAddress sumcheckEncode (replicate 30 0x00) (Num 0x1e) = Inl (HashMustBe20Bytes 30)
 \<and> encodePivxAddress sumcheckEncode (replicate 10 0x00) (Num 0x12c) = Inl (HashMustBe20Bytes 10)
 \<and> encodePivxAddress sumcheckEncode (replicate 30 0x00) (Arr [0x01, 0xb9, 0xa2]) =
      Inl (HashMustBe20Bytes 30)"
proof -
  have h10: "length (replicate 10 (0x00 :: byte)) \<noteq> 20"
    by simp
  have h30: "length (replicate 30 (0x00 :: byte)) \<noteq> 20"
    by simp
  show ?thesis
    using h10 h30
      C6_encode_rejects_hash_length [OF h10, of sumcheckEncode "Num 0x1e"]
      C6_encode_rejects_hash_length [OF h30, of sumcheckEncode "Num 0x1e"]
      C6_encode_rejects_hash_length [OF h10, of sumcheckEncode "Num 0x12c"]
      C6_encode_rejects_hash_length [OF h30, of sumcheckEncode "Arr [0x01, 0xb9, 0xa2]"]
    by simp
qed

text \<open>
  Claim C7. Whenever \<open>parsePivxBase58Address\<close> returns a result, its hash has exactly 20
  bytes and its class is one of p2pkh, p2sh, staking, exchange. Whenever the matcher
  extracts a hash of another length, the decoder fails with "invalid hash length"
  carrying that length, a condition different from "unknown prefix".
\<close>

theorem C7_decode_result_wellformed:
  "(parsePivxBase58Address decode address network = Inr r \<longrightarrow>
      length (hash r) = 20 \<and> type r \<in> set KNOWN_TYPES)
 \<and> (decode address = Inr payload \<and> extractVersion payload network = Inr e
      \<and> length (hash e) \<noteq> 20 \<longrightarrow>
      parsePivxBase58Address decode address network = Inl (InvalidHashLength (length (hash e))))
 \<and> InvalidHashLength n \<noteq> UnknownPrefix b"
  using parse_Inr [of decode address network r]
  by (simp add: parsePivxBase58Address_def)

theorem C7_decode_result_wellformed_witness:
  "parsePivxBase58Address sumcheckDecode (sumcheckEncode (0x0d # replicate 20 0x34)) pivx =
      Inr \<lparr> type = ''p2sh'', version = Num 0x0d, hash = replicate 20 0x34 \<rparr>
 \<and> length (hash \<lparr> type = ''p2sh'', version = Num 0x0d, hash = replicate 20 (0x34 :: byte) \<rparr>) = 20
 \<and> type \<lparr> type = ''p2sh'', version = Num 0x0d, hash = replicate 20 (0x34 :: byte) \<rparr>
      \<in> set KNOWN_TYPES
 \<and> sumcheckDecode (sumcheckEncode (0x1e # replicate 22 0x00)) = Inr (0x1e # replicate 22 0x00)
 \<and> extractVersion (0x1e # replicate 22 0x00) pivx =
      Inr \<lparr> type = ''p2pkh'', version = Num 0x1e, hash = replicate 22 0x00 \<rparr>
 \<and> parsePivxBase58Address sumcheckDecode (sumcheckEncode (0x1e # replicate 22 0x00)) pivx =
      Inl (InvalidHashLength 22)"
proof -
  have ok: "parsePivxBase58Address sumcheckDecode (sumcheckEncode (0x0d # replicate 20 0x34)) pivx =
      Inr \<lparr> type = ''p2sh'', version = Num 0x0d, hash = replicate 20 0x34 \<rparr>"
    using parse_pivx_single [of sumcheckDecode "sumcheckEncode (0x0d # replicate 20 0x34)"
        "0x0d" "replicate 20 0x34"]
    by (simp add: sumcheck_roundtrip)
  have dec: "sumcheckDecode (sumcheckEncode (0x1e # replicate 22 0x00)) =
      Inr (0x1e # replicate 22 0x00)"
    by (rule sumcheck_roundtrip)
  have ext: "extractVersion (0x1e # replicate 22 0x00) pivx =
      Inr \<lparr> type = ''p2pkh'', version = Num 0x1e, hash = replicate 22 0x00 \<rparr>"
    by (simp add: extractVersion_pivx single_stage_pivx)
  show ?thesis
    using ok dec ext
      C7_decode_result_wellformed [of sumcheckDecode
        "sumcheckEncode (0x0d # replicate 20 0x34)" pivx
        "\<lparr> type = ''p2sh'', version = Num 0x0d, hash = replicate 20 0x34 \<rparr>"]
      C7_decode_result_wellformed [of sumcheckDecode
        "sumcheckEncode (0x1e # replicate 22 0x00)" pivx _
        "0x1e # replicate 22 0x00"
        "\<lparr> type = ''p2pkh'', version = Num 0x1e, hash = replicate 22 0x00 \<rparr>"]
    by simp
qed

section \<open>Script projection\<close>

text \<open>
  Claim C8. Let the decoder return class and hash \<open>H\<close> for an address. For the classes
  pubKeyHash and staking the script is the same, OP_DUP OP_HASH160 (push of \<open>H\<close>)
  OP_EQUALVERIFY OP_CHECKSIG, 25 bytes; for exchange it is the marker opcode 0xe0
  followed by exactly that script, 26 bytes; for scriptHash it is OP_HASH160
  (push of \<open>H\<close>) OP_EQUAL, 23 bytes. The push of a 20-byte hash is the byte 0x14
  followed by the hash.
\<close>

theorem C8_script_projection:
  assumes "parsePivxBase58Address decode address network = Inr r"
  shows "(type r = ''p2pkh'' \<or> type r = ''staking'' \<longrightarrow>
            pivxAddressToOutputScript decode address network =
              Inr ([OP_DUP, OP_HASH160, 0x14] @ hash r @ [OP_EQUALVERIFY, OP_CHECKSIG])
          \<and> length ([OP_DUP, OP_HASH160, 0x14] @ hash r @ [OP_EQUALVERIFY, OP_CHECKSIG]) = 25)
       \<and> (type r = ''exchange'' \<longrightarrow>
            pivxAddressToOutputScript decode address network =
              Inr (0xe0 # [OP_DUP, OP_HASH160, 0x14] @ hash r @ [OP_EQUALVERIFY, OP_CHECKSIG])
          \<and> length (0xe0 # [OP_DUP, OP_HASH160, 0x14] @ hash r @ [OP_EQUALVERIFY, OP_CHECKSIG]) = 26)
       \<and> (type r = ''p2sh'' \<longrightarrow>
            pivxAddressToOutputScript decode address network =
              Inr ([OP_HASH160, 0x14] @ hash r @ [OP_EQUAL])
          \<and> length ([OP_HASH160, 0x14] @ hash r @ [OP_EQUAL]) = 23)"
proof -
  have len: "length (hash r) = 20" using parse_Inr [OF assms] by simp
  show ?thesis
    using assms len
    by (simp add: pivxAddressToOutputScript_def compile_p2pkh compile_exchange compile_p2sh)
qed

theorem C8_script_projection_witness:
  "pivxAddressToOutputScript sumcheckDecode (sumcheckEncode (0x1e # replicate 20 0x56)) pivx =
      Inr ([OP_DUP, OP_HASH160, 0x14] @ replicate 20 0x56 @ [OP_EQUALVERIFY, OP_CHECKSIG])
 \<and> pivxAddressToOutputScript sumcheckDecode (sumcheckEncode (0x3f # replicate 20 0x56)) pivx =
      Inr ([OP_DUP, OP_HASH160, 0x14] @ replicate 20 0x56 @ [OP_EQUALVERIFY, OP_CHECKSIG])
 \<and> pivxAddressToOutputScript sumcheckDecode
      (sumcheckEncode ([0x01, 0xb9, 0xa2] @ replicate 20 0x56)) pivx =
      Inr (0xe0 # [OP_DUP, OP_HASH160, 0x14] @ replicate 20 0x56 @ [OP_EQUALVERIFY, OP_CHECKSIG])
 \<and> pivxAddressToOutputScript sumcheckDecode (sumcheckEncode (0x0d # replicate 20 0x56)) pivx =
      Inr ([OP_HASH160, 0x14] @ replicate 20 0x56 @ [OP_EQUAL])"
proof -
  have p2pkh: "parsePivxBase58Address sumcheckDecode (sumcheckEncode (0x1e # replicate 20 0x56)) pivx =
      Inr \<lparr> type = ''p2pkh'', version = Num 0x1e, hash = replicate 20 0x56 \<rparr>"
    using parse_pivx_single [of sumcheckDecode "sumcheckEncode (0x1e # replicate 20 0x56)"
        "0x1e" "replicate 20 0x56"]
    by (simp add: sumcheck_roundtrip)
  have stake: "parsePivxBase58Address sumcheckDecode (sumcheckEncode (0x3f # replicate 20 0x56)) pivx =
      Inr \<lparr> type = ''staking'', version = Num 0x3f, hash = replicate 20 0x56 \<rparr>"
    using parse_pivx_single [of sumcheckDecode "sumcheckEncode (0x3f # replicate 20 0x56)"
        "0x3f" "replicate 20 0x56"]
    by (simp add: sumcheck_roundtrip)
  have p2sh: "parsePivxBase58Address sumcheckDecode (sumcheckEncode (0x0d # replicate 20 0x56)) pivx =
      Inr \<lparr> type = ''p2sh'', version = Num 0x0d, hash = replicate 20 0x56 \<rparr>"
    using parse_pivx_single [of sumcheckDecode "sumcheckEncode (0x0d # replicate 20 0x56)"
        "0x0d" "replicate 20 0x56"]
    by (simp add: sumcheck_roundtrip)
  have exch: "parsePivxBase58Address sumcheckDecode
        (sumcheckEncode ([0x01, 0xb9, 0xa2] @ replicate 20 0x56)) pivx =
      Inr \<lparr> type = ''exchange'', version = Arr [0x01, 0xb9, 0xa2], hash = replicate 20 0x56 \<rparr>"
    using parse_pivx_exchange [of sumcheckDecode
        "sumcheckEncode ([0x01, 0xb9, 0xa2] @ replicate 20 0x56)" "replicate 20 0x56"]
    by (simp add: sumcheck_roundtrip)
  show ?thesis
    using C8_script_projection [OF p2pkh] C8_script_projection [OF stake]
      C8_script_projection [OF exch] C8_script_projection [OF p2sh]
    by simp
qed

text \<open>
  Claim C9. For every decoder, address and registry, \<open>pivxAddressToOutputScript\<close> never
  fails with "unknown address type": it either fails with the decoder's own failure,
  which is one of the decode-stage conditions, or returns a script for an address whose
  class is one of the four known ones.
\<close>

theorem C9_default_branch_unreachable:
  "pivxAddressToOutputScript decode address network \<noteq> Inl (UnknownAddressType t)
 \<and> (case pivxAddressToOutputScript decode address network of
       Inl e \<Rightarrow> isDecodeStageError e \<and> parsePivxBase58Address decode address network = Inl e
     | Inr s \<Rightarrow> (\<exists>r. parsePivxBase58Address decode address network = Inr r
                      \<and> type r \<in> set KNOWN_TYPES))"
proof (cases "parsePivxBase58Address decode address network")
  case (Inl e)
  then show ?thesis
    using parse_Inl [OF Inl] by (auto simp: pivxAddressToOutputScript_def)
next
  case (Inr r)
  then show ?thesis
    using parse_Inr [OF Inr]
    by (auto simp: pivxAddressToOutputScript_def KNOWN_TYPES_def)
qed

theorem C9_default_branch_unreachable_witness:
  "pivxAddressToOutputScript sumcheckDecode (sumcheckEncode (0xff # replicate 20 0xaa)) pivx
      \<noteq> Inl (UnknownAddressType ''unknown'')
 \<and> pivxAddressToOutputScript sumcheckDecode (sumcheckEncode (0xff # replicate 20 0xaa)) pivx
      = Inl (UnknownPrefix 0xff)"
proof -
  have "parsePivxBase58Address sumcheckDecode (sumcheckEncode (0xff # replicate 20 0xaa)) pivx =
      Inl (UnknownPrefix 0xff)"
    using parse_pivx_single [of sumcheckDecode "sumcheckEncode (0xff # replicate 20 0xaa)"
        "0xff" "replicate 20 0xaa"]
    by (simp add: sumcheck_roundtrip)
  then have r: "pivxAddressToOutputScript sumcheckDecode
      (sumcheckEncode (0xff # replicate 20 0xaa)) pivx = Inl (UnknownPrefix 0xff)"
    by (simp add: pivxAddressToOutputScript_def)
  show ?thesis
    using r C9_default_branch_unreachable [of sumcheckDecode
        "sumcheckEncode (0xff # replicate 20 0xaa)" pivx "''unknown''"]
    by blast
qed

end
